theory Spec2Isabelle
  imports Complex_Main "HOL-Library.Word"
begin

section \<open>The value dialect of Accera: MMA descriptors, verifiers, folders, builders\<close>

text \<open>
  A shallow embedding of \<^verbatim>\<open>accera/ir/src/value/ValueDialect.cpp\<close>. Each C++ function
  becomes a HOL function of the same name. An \<^verbatim>\<open>assert\<close> that fails and an index
  outside a container are values of the type \<open>error\<close>; a function that can fail returns
  \<open>error + 'a\<close>. Assertions are modelled as the build with assertions enabled runs them.
\<close>

type_synonym int64_t = "64 word"
type_synonym uint8_t = "8 word"

datatype error = AssertionFailed string | IndexOutOfRange

subsection \<open>MMA shape table\<close>

text \<open>
  The enumeration \<^verbatim>\<open>MMAShape\<close> is declared in a header. Its enumerators are the labels
  of the switch in the constructor of \<^verbatim>\<open>MMAOp\<close>; \<open>MMAShape_Unknown v\<close> stands for an
  underlying value \<open>v\<close> that is none of them, which a C++ scoped enumeration can hold and
  which the \<^verbatim>\<open>default\<close> label receives.
\<close>

datatype MMAShape =
    M64xN64xK1_B4
  | M64xN64xK1_B2
  | M64xN64xK2_B4
  | M64xN64xK2_B2
  | M64xN64xK4_B4
  | M64xN64xK4_B2
  | M32xN32xK2_B1
  | M32xN32xK4_B1
  | M32xN32xK8_B1
  | M16xN16xK4_B1
  | M16xN16xK8_B1
  | M16xN16xK16_B1
  | M32xN8xK16_B1
  | M8xN32xK16_B1
  | MMAShape_Unknown int

text \<open>
  The class \<^verbatim>\<open>MMAOp\<close>: the fields \<^verbatim>\<open>shape\<close>, \<^verbatim>\<open>m\<close>, \<^verbatim>\<open>n\<close>, \<^verbatim>\<open>k\<close> and
  \<^verbatim>\<open>blocks\<close>, named here after the accessors that return them.
\<close>

record MMAOp =
  getShapeType :: MMAShape
  getM :: int64_t
  getN :: int64_t
  getK :: int64_t
  getNumBlocks :: int64_t

definition mk_MMAOp :: "MMAShape \<Rightarrow> int64_t \<Rightarrow> int64_t \<Rightarrow> int64_t \<Rightarrow> int64_t \<Rightarrow> MMAOp" where
  "mk_MMAOp shape m n k blocks =
     \<lparr>getShapeType = shape, getM = m, getN = n, getK = k, getNumBlocks = blocks\<rparr>"

text \<open>The constructor \<^verbatim>\<open>MMAOp::MMAOp(MMAShape)\<close>, one equation per case label.\<close>

fun MMAOp_ctor :: "MMAShape \<Rightarrow> error + MMAOp" where
  "MMAOp_ctor M64xN64xK1_B4 = Inr (mk_MMAOp M64xN64xK1_B4 64 64 1 4)"
| "MMAOp_ctor M64xN64xK1_B2 = Inr (mk_MMAOp M64xN64xK1_B2 64 64 1 2)"
| "MMAOp_ctor M64xN64xK2_B4 = Inr (mk_MMAOp M64xN64xK2_B4 64 64 2 4)"
| "MMAOp_ctor M64xN64xK2_B2 = Inr (mk_MMAOp M64xN64xK2_B2 64 64 2 2)"
| "MMAOp_ctor M64xN64xK4_B4 = Inr (mk_MMAOp M64xN64xK4_B4 64 64 4 4)"
| "MMAOp_ctor M64xN64xK4_B2 = Inr (mk_MMAOp M64xN64xK4_B2 64 64 4 2)"
| "MMAOp_ctor M32xN32xK2_B1 = Inr (mk_MMAOp M32xN32xK2_B1 32 32 2 1)"
| "MMAOp_ctor M32xN32xK4_B1 = Inr (mk_MMAOp M32xN32xK4_B1 32 32 4 1)"
| "MMAOp_ctor M32xN32xK8_B1 = Inr (mk_MMAOp M32xN32xK8_B1 32 32 8 1)"
| "MMAOp_ctor M16xN16xK4_B1 = Inr (mk_MMAOp M16xN16xK4_B1 16 16 4 1)"
| "MMAOp_ctor M16xN16xK8_B1 = Inr (mk_MMAOp M16xN16xK8_B1 16 16 8 1)"
| "MMAOp_ctor M16xN16xK16_B1 = Inr (mk_MMAOp M16xN16xK16_B1 16 16 16 1)"
| "MMAOp_ctor M32xN8xK16_B1 = Inr (mk_MMAOp M32xN8xK16_B1 32 8 16 1)"
| "MMAOp_ctor M8xN32xK16_B1 = Inr (mk_MMAOp M8xN32xK16_B1 8 32 16 1)"
| "MMAOp_ctor (MMAShape_Unknown v) = Inl (AssertionFailed ''Invalid MMA shape.'')"

text \<open>A shape is recognized when the constructor runs through without the assertion.\<close>

definition recognized :: "MMAShape \<Rightarrow> bool" where
  "recognized s = (case MMAOp_ctor s of Inl e \<Rightarrow> False | Inr d \<Rightarrow> True)"

text \<open>
  The enumeration \<^verbatim>\<open>MMAOperandType\<close>, declared in a header: the three roles the source
  names, and \<open>MMAOperandType_Unknown v\<close> for any other underlying value.
\<close>

datatype MMAOperandType =
    MMAOperandType_A
  | MMAOperandType_B
  | MMAOperandType_Acc
  | MMAOperandType_Unknown int

fun getOperandShape :: "MMAOp \<Rightarrow> MMAOperandType \<Rightarrow> int64_t list" where
  "getOperandShape d MMAOperandType_A = [getM d, getK d]"
| "getOperandShape d MMAOperandType_B = [getK d, getN d]"
| "getOperandShape d MMAOperandType_Acc = [getM d, getN d]"
| "getOperandShape d (MMAOperandType_Unknown v) = []"

subsection \<open>Thread offset map\<close>

definition getOffsetMap :: "MMAOp \<Rightarrow> uint8_t list" where
  "getOffsetMap d =
     (if getNumBlocks d = 2 \<or> getM d = 32
      then [0, 4, 1, 5, 2, 6, 3, 7, 8, 12, 9, 13, 10, 14, 11, 15,
            16, 20, 17, 21, 18, 22, 19, 23, 24, 28, 25, 29, 26, 30, 27, 31]
      else [0, 4, 8, 12, 1, 5, 9, 13, 2, 6, 10, 14, 3, 7, 11, 15])"

definition getOffsetMapSize :: "MMAOp \<Rightarrow> int64_t \<times> int64_t" where
  "getOffsetMapSize d = (if getNumBlocks d = 2 \<or> getM d = 32 then (16, 2) else (4, 4))"

subsection \<open>Types and attributes of the host framework\<close>

text \<open>
  The part of the framework's type system the functions below inspect. An integer type
  has a width (at least 1) and a signedness; \<^verbatim>\<open>isSignlessIntOrIndex\<close> and
  \<^verbatim>\<open>isSignlessIntOrIndexOrFloat\<close> are the framework's predicates of these names.
\<close>

datatype Signedness = Signless | Signed | Unsigned

datatype FloatKind = BF16 | F16 | F32 | F64

datatype Type =
    IntegerType nat Signedness
  | IndexType
  | FloatType FloatKind
  | OtherType string



text \<open>A function type: the types of its inputs, then the types of its results.\<close>

datatype FunctionType = FunctionType (getInputs: "Type list") "Type list"

text \<open>
  The enumeration \<^verbatim>\<open>ExecutionTarget\<close> is declared in a header; a value is kept as its
  underlying integer.
\<close>

datatype ExecutionTarget = ExecutionTarget int

text \<open>
  Attributes. \<open>IntegerAttr t v\<close> holds the value as \<^verbatim>\<open>getInt()\<close> returns it, a signed
  64-bit integer. \<open>FloatAttr t x\<close> is the attribute \<^verbatim>\<open>FloatAttr::get(t, x)\<close> for a
  finite double \<open>x\<close>, which is given by its value, a real number.
\<close>

datatype Attribute =
    IntegerAttr Type int64_t
  | FloatAttr Type real
  | StringAttr string
  | TypeAttr FunctionType
  | ExecutionTargetAttr ExecutionTarget
  | UnitAttr







subsection \<open>Folding\<close>

datatype Value = Value (valueId: nat) (getType: Type)

text \<open>
  \<^verbatim>\<open>OpFoldResult\<close>: empty (the operation is not folded), an attribute (the operation
  folds to that constant) or a value (the operation folds to that existing value).
\<close>

datatype OpFoldResult = NotFolded | FoldedToAttribute Attribute | FoldedToValue Value

text \<open>
  \<^verbatim>\<open>GetElementOp::fold\<close>: the operation is given by its operand and its result type.
\<close>

definition GetElementOp_fold :: "Value \<Rightarrow> Type \<Rightarrow> OpFoldResult" where
  "GetElementOp_fold operand resultType =
     (if getType operand = resultType then FoldedToValue operand else NotFolded)"


subsection \<open>Strided layouts\<close>

text \<open>
  Modelled from the spec: the strided-layout algebra of the host framework
  (\<^verbatim>\<open>AffineMap\<close>, \<^verbatim>\<open>AffineMap::getPermutationMap\<close>, \<^verbatim>\<open>makeStridedLinearLayoutMap\<close>,
  \<^verbatim>\<open>AffineMap::compose\<close>, \<^verbatim>\<open>getStridesAndOffset\<close>), which is a library outside this
  repository. The spec describes a buffer type as shape, strides and offset with an
  explicit composition operator. An affine map is kept here in linear form: it has a
  number of dimensions \<open>d\<^sub>0, \<dots>\<close> and a list of results, each result
  \<open>c + a\<^sub>0 * d\<^sub>0 + a\<^sub>1 * d\<^sub>1 + \<dots>\<close> given by its coefficients and its constant.
  The layout of a buffer type is such a map; a type without an explicit layout is
  represented by the strided map of its row-major strides.
\<close>

type_synonym AffineExpr = "int list \<times> int"

record AffineMap =
  getNumDims :: nat
  getResults :: "AffineExpr list"

text \<open>The expression \<open>d\<^sub>p\<close> among \<open>n\<close> dimensions.\<close>

definition getAffineDimExpr :: "nat \<Rightarrow> nat \<Rightarrow> AffineExpr" where
  "getAffineDimExpr n p = (map (\<lambda>i. if i = p then 1 else 0) [0 ..< n], 0)"

text \<open>
  A vector of dimension indices is a permutation when its entries are below its length
  and pairwise different; the framework's \<^verbatim>\<open>isPermutation\<close> asks this of the
  map made from it.
\<close>

definition isPermutationOrder :: "nat list \<Rightarrow> bool" where
  "isPermutationOrder perm = (distinct perm \<and> list_all (\<lambda>p. p < length perm) perm)"

text \<open>
  \<^verbatim>\<open>AffineMap::getPermutationMap(permutation)\<close>: the map
  \<open>(d\<^sub>0, \<dots>) \<rightarrow> (d\<^bsub>permutation[0]\<^esub>, \<dots>)\<close>; \<open>None\<close> when the
  vector is not a permutation, where the source's \<^verbatim>\<open>assert(permutationMap)\<close> stops.
\<close>

definition getPermutationMap :: "nat list \<Rightarrow> AffineMap option" where
  "getPermutationMap permutation =
     (if isPermutationOrder permutation
      then Some \<lparr>getNumDims = length permutation,
                 getResults = map (getAffineDimExpr (length permutation)) permutation\<rparr>
      else None)"

text \<open>
  \<^verbatim>\<open>makeStridedLinearLayoutMap(strides, offset)\<close>: the map
  \<open>(d\<^sub>0, \<dots>) \<rightarrow> (offset + strides[0] * d\<^sub>0 + \<dots>)\<close>.
\<close>

definition makeStridedLinearLayoutMap :: "int list \<Rightarrow> int \<Rightarrow> AffineMap" where
  "makeStridedLinearLayoutMap strides offset =
     \<lparr>getNumDims = length strides, getResults = [(strides, offset)]\<rparr>"

text \<open>
  Substitution of the results \<open>rs\<close> of a map for the dimensions of an expression:
  the coefficient of \<open>d\<^sub>i\<close> in \<open>c + \<Sum>\<^sub>j a\<^sub>j * rs\<^sub>j\<close>, and its constant.
\<close>

definition substitute :: "nat \<Rightarrow> AffineExpr list \<Rightarrow> AffineExpr \<Rightarrow> AffineExpr" where
  "substitute n rs e =
     (map (\<lambda>i. sum_list (map (\<lambda>j. fst e ! j * fst (rs ! j) ! i) [0 ..< length rs])) [0 ..< n],
      snd e + sum_list (map (\<lambda>j. fst e ! j * snd (rs ! j)) [0 ..< length rs]))"

text \<open>
  \<^verbatim>\<open>f.compose(g)\<close>, the map that applies \<open>g\<close> and then \<open>f\<close>; the framework asserts
  that \<open>f\<close> has as many dimensions as \<open>g\<close> has results.
\<close>

definition compose :: "AffineMap \<Rightarrow> AffineMap \<Rightarrow> error + AffineMap" where
  "compose f g =
     (if getNumDims f \<noteq> length (getResults g)
      then Inl (AssertionFailed ''getNumDims() == map.getNumResults()'')
      else Inr \<lparr>getNumDims = getNumDims g,
                getResults = map (substitute (getNumDims g) (getResults g)) (getResults f)\<rparr>)"

subsection \<open>Buffer types\<close>

text \<open>
  The enumeration \<^verbatim>\<open>MemorySpace\<close>, declared in a header: the five enumerators the
  source names, and \<open>MemorySpace_Other v\<close> for any other underlying value. The field
  \<open>getMemorySpace\<close> of a buffer type is what the source reads as
  \<^verbatim>\<open>MemorySpace{ type.getMemorySpaceAsInt() }\<close>.
\<close>

datatype MemorySpace =
    MemorySpace_None
  | MemorySpace_Global
  | MemorySpace_Shared
  | MemorySpace_Private
  | MemorySpace_Tensor
  | MemorySpace_Other nat

text \<open>
  \<^verbatim>\<open>MemRefType\<close>. The sizes are \<^verbatim>\<open>int64_t\<close> values that the functions below compare
  and move but never compute with.
\<close>

record MemRefType =
  getShape :: "int list"
  getElementType :: Type
  getLayout :: AffineMap
  getMemorySpace :: MemorySpace

text \<open>
  Modelled from the spec: \<^verbatim>\<open>getStridesAndOffset\<close> of the host framework. It succeeds
  when the layout is one affine expression over as many dimensions as the type has,
  and returns its coefficients as the strides and its constant as the offset.
\<close>

definition getStridesAndOffset :: "MemRefType \<Rightarrow> (int list \<times> int) option" where
  "getStridesAndOffset t =
     (case getResults (getLayout t) of
        [(strides, offset)] \<Rightarrow>
          if length strides = length (getShape t) \<and> getNumDims (getLayout t) = length (getShape t)
          then Some (strides, offset) else None
      | _ \<Rightarrow> None)"

subsection \<open>The builder of the reorder operation\<close>

text \<open>
  The loop of \<^verbatim>\<open>ReorderOp::build\<close> over \<^verbatim>\<open>llvm::enumerate(dimOrder)\<close>. Each step
  writes \<^verbatim>\<open>permutedSizes[index]\<close> and \<^verbatim>\<open>affineMapOrder[value]\<close> and reads
  \<^verbatim>\<open>originalSizes[value]\<close>; a value that is no index of \<^verbatim>\<open>originalSizes\<close> or of
  \<^verbatim>\<open>affineMapOrder\<close> is \<open>IndexOutOfRange\<close>. The index of a step is always an index
  of \<^verbatim>\<open>permutedSizes\<close>.
\<close>

fun reorder_loop ::
  "int list \<Rightarrow> (nat \<times> int) list \<Rightarrow> int list \<Rightarrow> nat list \<Rightarrow> error + (int list \<times> nat list)" where
  "reorder_loop originalSizes [] permutedSizes affineMapOrder =
     Inr (permutedSizes, affineMapOrder)"
| "reorder_loop originalSizes ((index, val) # rest) permutedSizes affineMapOrder =
     (if val < 0 \<or> int (length originalSizes) \<le> val \<or> int (length affineMapOrder) \<le> val
      then Inl IndexOutOfRange
      else reorder_loop originalSizes rest
             (permutedSizes[index := originalSizes ! nat val])
             (affineMapOrder[nat val := index]))"

text \<open>
  \<^verbatim>\<open>ReorderOp::build(builder, result, source, orderAttr)\<close>, up to the result type it
  computes and hands to the generated builder: \<open>sourceType\<close> is the type of the source,
  \<open>orderAttr\<close> the dimension order as \<^verbatim>\<open>ConvertArrayAttrToIntVector\<close> returns it.
\<close>

definition ReorderOp_build :: "MemRefType \<Rightarrow> int list \<Rightarrow> error + MemRefType" where
  "ReorderOp_build sourceType orderAttr =
     (let originalSizes = getShape sourceType;
          dimOrder = orderAttr
      in case reorder_loop originalSizes (enumerate 0 dimOrder)
                (replicate (length dimOrder) 0) (replicate (length dimOrder) 0) of
           Inl e \<Rightarrow> Inl e
         | Inr (permutedSizes, affineMapOrder) \<Rightarrow>
             (case getPermutationMap affineMapOrder of
                None \<Rightarrow> Inl (AssertionFailed ''permutationMap'')
              | Some permutationMap \<Rightarrow>
                  (case getStridesAndOffset sourceType of
                     None \<Rightarrow> Inl (AssertionFailed ''succeeded(res)'')
                   | Some (strides, offset) \<Rightarrow>
                       (case compose (makeStridedLinearLayoutMap strides offset) permutationMap of
                          Inl e \<Rightarrow> Inl e
                        | Inr map' \<Rightarrow>
                            Inr (sourceType\<lparr>getShape := permutedSizes, getLayout := map'\<rparr>)))))"

subsection \<open>Verifiers of the MMA operations\<close>

text \<open>
  \<^verbatim>\<open>LogicalResult\<close>: \<open>success\<close>, or the failure that \<^verbatim>\<open>emitError\<close> returns, with
  the message of the diagnostic.
\<close>

datatype LogicalResult = success | failure string

text \<open>Each operation is the record of what its verifier reads.\<close>

record MMAComputeSyncOp =
  opA :: MemRefType
  opB :: MemRefType

definition verify_MMAComputeSyncOp :: "MMAComputeSyncOp \<Rightarrow> LogicalResult" where
  "verify_MMAComputeSyncOp op =
     (let opAType = getElementType (opA op);
          opBType = getElementType (opB op)
      in if opAType \<noteq> opBType then failure ''Invalid data types for A and B.''
         else success)"

record MMALoadSyncOp =
  load_getMemRefType :: MemRefType
  operandType :: MMAOperandType

definition verify_MMALoadSyncOp :: "MMALoadSyncOp \<Rightarrow> LogicalResult" where
  "verify_MMALoadSyncOp op =
     (let srcType = load_getMemRefType op;
          operand = operandType op;
          srcMemSpace = getMemorySpace srcType
      in if srcMemSpace \<noteq> MemorySpace_None \<and> srcMemSpace \<noteq> MemorySpace_Shared \<and>
            srcMemSpace \<noteq> MemorySpace_Global \<and> srcMemSpace \<noteq> MemorySpace_Private \<and>
            srcMemSpace \<noteq> MemorySpace_Tensor
         then failure ''source memorySpace None, Shared, Private, Global or Tensor only allowed''
         else if operand \<noteq> MMAOperandType_A \<and> operand \<noteq> MMAOperandType_B \<and>
                 operand \<noteq> MMAOperandType_Acc
         then failure ''only AOp, BOp and COp can be loaded''
         else success)"

record MMAStoreSyncOp =
  store_getMemRefType :: MemRefType

definition verify_MMAStoreSyncOp :: "MMAStoreSyncOp \<Rightarrow> LogicalResult" where
  "verify_MMAStoreSyncOp op =
     (let dstMemrefType = store_getMemRefType op;
          dstMemSpace = getMemorySpace dstMemrefType
      in if dstMemSpace \<noteq> MemorySpace_None \<and> dstMemSpace \<noteq> MemorySpace_Shared \<and>
            dstMemSpace \<noteq> MemorySpace_Global \<and> dstMemSpace \<noteq> MemorySpace_Private \<and>
            dstMemSpace \<noteq> MemorySpace_Tensor
         then failure ''destination memorySpace of None, Global, Shared, Private or Tensor only allowed''
         else success)"

text \<open>
  \<^verbatim>\<open>GPUBlockCacheOp\<close>. The accessors \<^verbatim>\<open>workPerThread\<close> and \<^verbatim>\<open>vecWidth\<close> are generated;
  their values are integers here. The remainder is taken only when both are at least 1,
  where the C++ remainder and \<open>mod\<close> agree. The two assertions follow the three checks
  that return a failure; \<open>dstShape\<close> and \<open>tileShapeVec\<close> have two entries there.
\<close>

record GPUBlockCacheOp =
  tileShape :: "int list"
  dest :: MemRefType
  workPerThread :: int
  vecWidth :: int
  dstRowMajor :: bool

definition verify_GPUBlockCacheOp :: "GPUBlockCacheOp \<Rightarrow> error + LogicalResult" where
  "verify_GPUBlockCacheOp op =
     (if length (tileShape op) \<noteq> 2
      then Inr (failure ''Only 2-D tiles are supported.'')
      else
        let dstMemrefType = dest op;
            destMemSpace = getMemorySpace dstMemrefType;
            dstShape = getShape dstMemrefType
        in if length dstShape \<noteq> 2
           then Inr (failure ''Only 2-D destination memrefs are supported.'')
           else if workPerThread op < 1 \<or> vecWidth op < 1 \<or>
                   workPerThread op mod vecWidth op \<noteq> 0
           then Inr (failure ''Work per thread (WPT) must be >= 1 and vector width must be >= 1 and WPT must be a multiple of vector width.'')
           else
             let tileShapeVec = tileShape op
             in if \<not> (\<not> (destMemSpace = MemorySpace_Shared \<and> dstRowMajor op) \<or>
                       (dstShape ! 0 = tileShapeVec ! 0 \<and> dstShape ! 1 = tileShapeVec ! 1))
                then Inl (AssertionFailed ''!(Shared && dstRowMajor) || (dstShape[0] == tileShapeVec[0] && dstShape[1] == tileShapeVec[1])'')
                else if \<not> (\<not> (destMemSpace = MemorySpace_Shared \<and> \<not> dstRowMajor op) \<or>
                       (dstShape ! 0 = tileShapeVec ! 1 \<and> dstShape ! 1 = tileShapeVec ! 0))
                then Inl (AssertionFailed ''!(Shared && !dstRowMajor) || (dstShape[0] == tileShapeVec[1] && dstShape[1] == tileShapeVec[0])'')
                else Inr success)"

subsection \<open>Builders of function-like operations\<close>

text \<open>
  \<^verbatim>\<open>OperationState\<close>, as far as the builders of \<^verbatim>\<open>ValueFuncOp\<close> write it: the
  location, the list of named attributes and the list of regions. A region is its list
  of blocks; a block has arguments (a type and a location each) and operations. The
  attribute names that the accessors \<^verbatim>\<open>getSymbolAttrName\<close>, \<^verbatim>\<open>getTypeAttrName\<close> and
  \<^verbatim>\<open>getExecTargetAttrName\<close> return are defined in headers and are kept symbolic; a
  name written as a literal in the source is \<open>AttrName\<close> of that string.
\<close>

datatype Location = Location string

datatype AttrName = SymbolAttrName | TypeAttrName | ExecTargetAttrName | AttrName string

text \<open>The only operation the builders create is the return without operands.\<close>

datatype Operation = ReturnOp Location

record Block =
  getArguments :: "(Type \<times> Location) list"
  getOperations :: "Operation list"

type_synonym Region = "Block list"

record OperationState =
  location :: Location
  attributes :: "(AttrName \<times> Attribute) list"
  regions :: "Region list"

definition addAttribute :: "OperationState \<Rightarrow> AttrName \<Rightarrow> Attribute \<Rightarrow> OperationState" where
  "addAttribute result name attr = result\<lparr>attributes := attributes result @ [(name, attr)]\<rparr>"

text \<open>
  \<^verbatim>\<open>ValueFuncOp::build\<close>: three attributes, then a new region that receives an entry
  block with one argument per input of the function type, each at the location of the
  operation.
\<close>

definition ValueFuncOp_build ::
  "OperationState \<Rightarrow> string \<Rightarrow> FunctionType \<Rightarrow> ExecutionTarget \<Rightarrow> OperationState" where
  "ValueFuncOp_build result name type target =
     (let result1 = addAttribute result SymbolAttrName (StringAttr name);
          result2 = addAttribute result1 TypeAttrName (TypeAttr type);
          result3 = addAttribute result2 ExecTargetAttrName (ExecutionTargetAttr target);
          entryBlock = \<lparr>getArguments =
                          zip (getInputs type)
                              (replicate (length (getInputs type)) (location result3)),
                        getOperations = []\<rparr>
      in result3\<lparr>regions := regions result3 @ [[entryBlock]]\<rparr>)"

text \<open>
  \<^verbatim>\<open>ValueFuncOp::build\<close> with the \<^verbatim>\<open>ExternalFuncTag\<close>: the builder above, the unit
  attribute \<^verbatim>\<open>external\<close>, and a \<^verbatim>\<open>ReturnOp\<close> created at the end of the first block of
  \<^verbatim>\<open>result.regions[0]\<close>. The insertion guard restores the insertion point of the
  builder, which is therefore no part of the state here.
\<close>

definition ValueFuncOp_build_external ::
  "OperationState \<Rightarrow> string \<Rightarrow> FunctionType \<Rightarrow> ExecutionTarget \<Rightarrow> error + OperationState" where
  "ValueFuncOp_build_external result name type target =
     (let result1 = ValueFuncOp_build result name type target;
          result2 = addAttribute result1 (AttrName ''external'') UnitAttr
      in case regions result2 of
           [] \<Rightarrow> Inl IndexOutOfRange
         | region0 # others \<Rightarrow>
             (case region0 of
                [] \<Rightarrow> Inl IndexOutOfRange
              | front # blocks \<Rightarrow>
                  Inr (result2\<lparr>regions :=
                    (front\<lparr>getOperations := getOperations front @ [ReturnOp (location result2)]\<rparr>
                       # blocks) # others\<rparr>)))"

text \<open>
  A row-major buffer of shape 2 by 3 by 4, for the examples below.
\<close>

definition exampleType :: MemRefType where
  "exampleType = \<lparr>getShape = [2, 3, 4], getElementType = FloatType F32,
     getLayout = \<lparr>getNumDims = 3, getResults = [([12, 4, 1], 0)]\<rparr>,
     getMemorySpace = MemorySpace_None\<rparr>"

text \<open>
  A block cache operation over a 16 by 32 tile, for the examples below.
\<close>

definition blockCache :: "int \<Rightarrow> int \<Rightarrow> MemorySpace \<Rightarrow> int list \<Rightarrow> GPUBlockCacheOp" where
  "blockCache wpt vw space dstShape =
     \<lparr>tileShape = [16, 32],
      dest = \<lparr>getShape = dstShape, getElementType = FloatType F32,
              getLayout = \<lparr>getNumDims = 2, getResults = [([32, 1], 0)]\<rparr>,
              getMemorySpace = space\<rparr>,
      workPerThread = wpt, vecWidth = vw, dstRowMajor = True\<rparr>"

section \<open>Properties\<close>

subsection \<open>MMA shape table\<close>

lemma recognized_iff:
  "recognized s \<longleftrightarrow> s \<in> {M64xN64xK1_B4, M64xN64xK1_B2, M64xN64xK2_B4, M64xN64xK2_B2,
     M64xN64xK4_B4, M64xN64xK4_B2, M32xN32xK2_B1, M32xN32xK4_B1, M32xN32xK8_B1,
     M16xN16xK4_B1, M16xN16xK8_B1, M16xN16xK16_B1, M32xN8xK16_B1, M8xN32xK16_B1}"
  by (cases s) (simp_all add: recognized_def)

lemma card_recognized: "card (Collect recognized) = 14"
proof -
  have "Collect recognized = {M64xN64xK1_B4, M64xN64xK1_B2, M64xN64xK2_B4, M64xN64xK2_B2,
     M64xN64xK4_B4, M64xN64xK4_B2, M32xN32xK2_B1, M32xN32xK4_B1, M32xN32xK8_B1,
     M16xN16xK4_B1, M16xN16xK8_B1, M16xN16xK16_B1, M32xN8xK16_B1, M8xN32xK16_B1}"
    using recognized_iff by blast
  then show ?thesis by simp
qed

text \<open>
  Claim C1, as the code has it. The switch of the constructor has fourteen case labels,
  not thirteen: exactly fourteen shapes are recognized, each yields the literal
  \<open>(m, n, k, blocks)\<close> of its label (so \<open>M32xN8xK16_B1\<close> yields \<open>(32, 8, 16, 1)\<close>), and
  every value outside the fourteen ends in the failed assertion
  \<^verbatim>\<open>Invalid MMA shape.\<close>, which is fatal and not a returned error.
\<close>

theorem MMAOp_ctor_fourteen_shapes:
  "card (Collect recognized) = 14
   \<and> MMAOp_ctor M64xN64xK1_B4 =
       Inr \<lparr>getShapeType = M64xN64xK1_B4, getM = 64, getN = 64, getK = 1, getNumBlocks = 4\<rparr>
   \<and> MMAOp_ctor M64xN64xK1_B2 =
       Inr \<lparr>getShapeType = M64xN64xK1_B2, getM = 64, getN = 64, getK = 1, getNumBlocks = 2\<rparr>
   \<and> MMAOp_ctor M64xN64xK2_B4 =
       Inr \<lparr>getShapeType = M64xN64xK2_B4, getM = 64, getN = 64, getK = 2, getNumBlocks = 4\<rparr>
   \<and> MMAOp_ctor M64xN64xK2_B2 =
       Inr \<lparr>getShapeType = M64xN64xK2_B2, getM = 64, getN = 64, getK = 2, getNumBlocks = 2\<rparr>
   \<and> MMAOp_ctor M64xN64xK4_B4 =
       Inr \<lparr>getShapeType = M64xN64xK4_B4, getM = 64, getN = 64, getK = 4, getNumBlocks = 4\<rparr>
   \<and> MMAOp_ctor M64xN64xK4_B2 =
       Inr \<lparr>getShapeType = M64xN64xK4_B2, getM = 64, getN = 64, getK = 4, getNumBlocks = 2\<rparr>
   \<and> MMAOp_ctor M32xN32xK2_B1 =
       Inr \<lparr>getShapeType = M32xN32xK2_B1, getM = 32, getN = 32, getK = 2, getNumBlocks = 1\<rparr>
   \<and> MMAOp_ctor M32xN32xK4_B1 =
       Inr \<lparr>getShapeType = M32xN32xK4_B1, getM = 32, getN = 32, getK = 4, getNumBlocks = 1\<rparr>
   \<and> MMAOp_ctor M32xN32xK8_B1 =
       Inr \<lparr>getShapeType = M32xN32xK8_B1, getM = 32, getN = 32, getK = 8, getNumBlocks = 1\<rparr>
   \<and> MMAOp_ctor M16xN16xK4_B1 =
       Inr \<lparr>getShapeType = M16xN16xK4_B1, getM = 16, getN = 16, getK = 4, getNumBlocks = 1\<rparr>
   \<and> MMAOp_ctor M16xN16xK8_B1 =
       Inr \<lparr>getShapeType = M16xN16xK8_B1, getM = 16, getN = 16, getK = 8, getNumBlocks = 1\<rparr>
   \<and> MMAOp_ctor M16xN16xK16_B1 =
       Inr \<lparr>getShapeType = M16xN16xK16_B1, getM = 16, getN = 16, getK = 16, getNumBlocks = 1\<rparr>
   \<and> MMAOp_ctor M32xN8xK16_B1 =
       Inr \<lparr>getShapeType = M32xN8xK16_B1, getM = 32, getN = 8, getK = 16, getNumBlocks = 1\<rparr>
   \<and> MMAOp_ctor M8xN32xK16_B1 =
       Inr \<lparr>getShapeType = M8xN32xK16_B1, getM = 8, getN = 32, getK = 16, getNumBlocks = 1\<rparr>
   \<and> (\<forall>v. MMAOp_ctor (MMAShape_Unknown v) = Inl (AssertionFailed ''Invalid MMA shape.''))"
  using card_recognized by (simp add: mk_MMAOp_def)

text \<open>
  Claim C1 as stated speaks of exactly 13 named configurations; the number of shapes
  the constructor accepts is not 13.
\<close>

theorem MMAOp_ctor_not_thirteen_shapes: "card (Collect recognized) \<noteq> 13"
  using card_recognized by simp

subsection \<open>Operand shapes\<close>

text \<open>
  Claim C9: \<^verbatim>\<open>getOperandShape\<close> returns \<open>(m, k)\<close> for role A, \<open>(k, n)\<close> for role B and
  \<open>(m, n)\<close> for the accumulator, for every descriptor; for any other role value it
  returns the empty shape and does not fail.
\<close>

theorem getOperandShape_roles:
  "getOperandShape d MMAOperandType_A = [getM d, getK d]
   \<and> getOperandShape d MMAOperandType_B = [getK d, getN d]
   \<and> getOperandShape d MMAOperandType_Acc = [getM d, getN d]
   \<and> getOperandShape d (MMAOperandType_Unknown v) = []"
  by simp

subsection \<open>Thread offset map\<close>

text \<open>
  Claim C2: when \<open>blocks = 2\<close> or \<open>m = 32\<close>, \<^verbatim>\<open>getOffsetMap\<close> returns the fixed table of
  32 entries and \<^verbatim>\<open>getOffsetMapSize\<close> the shape \<open>(16, 2)\<close>; otherwise the fixed table of
  16 entries and the shape \<open>(4, 4)\<close>. In every case the length of the map is rows times
  columns of the shape. This holds for every descriptor, constructed or not.
\<close>

theorem getOffsetMap_selection:
  "(if getNumBlocks d = 2 \<or> getM d = 32
    then getOffsetMap d =
           [0, 4, 1, 5, 2, 6, 3, 7, 8, 12, 9, 13, 10, 14, 11, 15,
            16, 20, 17, 21, 18, 22, 19, 23, 24, 28, 25, 29, 26, 30, 27, 31]
         \<and> length (getOffsetMap d) = 32 \<and> getOffsetMapSize d = (16, 2)
    else getOffsetMap d = [0, 4, 8, 12, 1, 5, 9, 13, 2, 6, 10, 14, 3, 7, 11, 15]
         \<and> length (getOffsetMap d) = 16 \<and> getOffsetMapSize d = (4, 4))
   \<and> int (length (getOffsetMap d)) =
       sint (fst (getOffsetMapSize d)) * sint (snd (getOffsetMapSize d))"
  by (simp add: getOffsetMap_def getOffsetMapSize_def)

lemma upt_32: "[0..<32] = [0,1,2,3,4,5,6,7,8,9,10,11,12,13,14,15,16,17,18,19,20,21,22,23,24,25,26,27,28,29,30,31::nat]"
  by code_simp
lemma upt_16: "[0..<16] = [0,1,2,3,4,5,6,7,8,9,10,11,12,13,14,15::nat]"
  by code_simp

text \<open>
  Claim C10: each table \<^verbatim>\<open>getOffsetMap\<close> returns is a permutation of its index range.
  When \<open>blocks = 2\<close> or \<open>m = 32\<close> the table has 32 entries, and they are exactly the
  integers \<open>0..31\<close>; otherwise it has 16 entries, and they are exactly \<open>0..15\<close>. In both
  cases no entry is repeated, so every index occurs exactly once.
\<close>

theorem getOffsetMap_permutation:
  "(if getNumBlocks d = 2 \<or> getM d = 32
    then length (getOffsetMap d) = 32 \<and> set (map unat (getOffsetMap d)) = {0 ..< 32}
    else length (getOffsetMap d) = 16 \<and> set (map unat (getOffsetMap d)) = {0 ..< 16})
   \<and> distinct (getOffsetMap d)
   \<and> distinct (map unat (getOffsetMap d))
   \<and> set (map unat (getOffsetMap d)) = {0 ..< length (getOffsetMap d)}"
proof (cases "getNumBlocks d = 2 \<or> getM d = 32")
  case True
  have range: "{0 ..< 32::nat} = {0, 4, 1, 5, 2, 6, 3, 7, 8, 12, 9, 13, 10, 14, 11, 15,
      16, 20, 17, 21, 18, 22, 19, 23, 24, 28, 25, 29, 26, 30, 27, 31}"
    unfolding atLeastLessThan_upt upt_32 by auto
  have len: "length (getOffsetMap d) = 32"
    using True by (simp add: getOffsetMap_def)
  have "distinct (getOffsetMap d)"
    using True by (simp add: getOffsetMap_def)
  moreover have "distinct (map unat (getOffsetMap d))"
    using True by (simp add: getOffsetMap_def)
  moreover have "set (map unat (getOffsetMap d)) = {0 ..< 32}"
    unfolding range using True by (simp add: getOffsetMap_def)
  ultimately show ?thesis
    unfolding len using True by simp
next
  case False
  have range: "{0 ..< 16::nat} = {0, 4, 8, 12, 1, 5, 9, 13, 2, 6, 10, 14, 3, 7, 11, 15}"
    unfolding atLeastLessThan_upt upt_16 by auto
  have len: "length (getOffsetMap d) = 16"
    using False by (simp add: getOffsetMap_def)
  have "distinct (getOffsetMap d)"
    using False by (simp add: getOffsetMap_def)
  moreover have "distinct (map unat (getOffsetMap d))"
    using False by (simp add: getOffsetMap_def)
  moreover have "set (map unat (getOffsetMap d)) = {0 ..< 16}"
    unfolding range using False by (simp add: getOffsetMap_def)
  ultimately show ?thesis
    unfolding len using False by simp
qed

subsection \<open>Verifiers\<close>

text \<open>
  Claim C8: the verifier of the MMA compute operation succeeds exactly when the element
  types of the operands A and B are equal; when they differ it returns the failure with
  the message \<^verbatim>\<open>Invalid data types for A and B.\<close>
\<close>

theorem verify_MMAComputeSyncOp_element_types:
  "(verify_MMAComputeSyncOp op = success) =
     (getElementType (opA op) = getElementType (opB op))
   \<and> verify_MMAComputeSyncOp op =
       (if getElementType (opA op) = getElementType (opB op) then success
        else failure ''Invalid data types for A and B.'')"
  by (simp add: verify_MMAComputeSyncOp_def)

text \<open>
  Claim C6: the verifier of the MMA load succeeds exactly when the memory space of the
  source is one of None, Shared, Global, Private, Tensor and the operand role is one of
  A, B, Accumulator; the verifier of the MMA store succeeds exactly when the memory
  space of the destination is one of the five. Any other memory space is rejected with
  the failure that names the allowed spaces, and any other role with the failure that
  names the roles.
\<close>

theorem verify_MMA_load_store:
  "(verify_MMALoadSyncOp ld = success) =
     (getMemorySpace (load_getMemRefType ld) \<in>
        {MemorySpace_None, MemorySpace_Shared, MemorySpace_Global, MemorySpace_Private,
         MemorySpace_Tensor}
      \<and> operandType ld \<in> {MMAOperandType_A, MMAOperandType_B, MMAOperandType_Acc})
   \<and> verify_MMALoadSyncOp ld =
       (if getMemorySpace (load_getMemRefType ld) \<in>
            {MemorySpace_None, MemorySpace_Shared, MemorySpace_Global, MemorySpace_Private,
             MemorySpace_Tensor}
        then if operandType ld \<in> {MMAOperandType_A, MMAOperandType_B, MMAOperandType_Acc}
             then success
             else failure ''only AOp, BOp and COp can be loaded''
        else failure ''source memorySpace None, Shared, Private, Global or Tensor only allowed'')
   \<and> (verify_MMAStoreSyncOp st = success) =
       (getMemorySpace (store_getMemRefType st) \<in>
          {MemorySpace_None, MemorySpace_Shared, MemorySpace_Global, MemorySpace_Private,
           MemorySpace_Tensor})
   \<and> verify_MMAStoreSyncOp st =
       (if getMemorySpace (store_getMemRefType st) \<in>
            {MemorySpace_None, MemorySpace_Shared, MemorySpace_Global, MemorySpace_Private,
             MemorySpace_Tensor}
        then success
        else failure ''destination memorySpace of None, Global, Shared, Private or Tensor only allowed'')"
  by (simp add: verify_MMALoadSyncOp_def verify_MMAStoreSyncOp_def Let_def)

lemma length_two: "length xs = 2 \<Longrightarrow> \<exists>a b. xs = [a, b]"
  by (cases xs; cases "tl xs") auto

text \<open>
  Claim C7: the verifier of the block cache operation returns a failure with a message
  whenever the tile shape does not have exactly 2 entries, or the destination does not
  have rank 2, or work-per-thread is below 1, or the vector width is below 1, or
  work-per-thread is not a multiple of the vector width; and it returns a failure in no
  other case. The message is the one of the first check that fails. When none of these holds and the destination is in shared memory with a
  shape that does not match the tile (as it is when row-major, transposed when
  column-major), the verifier stops in an assertion and returns no failure; otherwise
  it succeeds.
\<close>

theorem verify_GPUBlockCacheOp_failures:
  "((\<exists>msg. verify_GPUBlockCacheOp op = Inr (failure msg)) =
      (length (tileShape op) \<noteq> 2 \<or> length (getShape (dest op)) \<noteq> 2 \<or>
       workPerThread op < 1 \<or> vecWidth op < 1 \<or> workPerThread op mod vecWidth op \<noteq> 0))
   \<and> (length (tileShape op) \<noteq> 2 \<longrightarrow>
        verify_GPUBlockCacheOp op = Inr (failure ''Only 2-D tiles are supported.''))
   \<and> (length (tileShape op) = 2 \<and> length (getShape (dest op)) \<noteq> 2 \<longrightarrow>
        verify_GPUBlockCacheOp op = Inr (failure ''Only 2-D destination memrefs are supported.''))
   \<and> (length (tileShape op) = 2 \<and> length (getShape (dest op)) = 2 \<and>
       (workPerThread op < 1 \<or> vecWidth op < 1 \<or> workPerThread op mod vecWidth op \<noteq> 0) \<longrightarrow>
        verify_GPUBlockCacheOp op = Inr (failure ''Work per thread (WPT) must be >= 1 and vector width must be >= 1 and WPT must be a multiple of vector width.''))
   \<and> (length (tileShape op) = 2 \<and> length (getShape (dest op)) = 2 \<and>
       1 \<le> workPerThread op \<and> 1 \<le> vecWidth op \<and> workPerThread op mod vecWidth op = 0
       \<longrightarrow> (if getMemorySpace (dest op) = MemorySpace_Shared \<and>
                getShape (dest op) \<noteq> (if dstRowMajor op then tileShape op else rev (tileShape op))
             then \<exists>msg. verify_GPUBlockCacheOp op = Inl (AssertionFailed msg)
             else verify_GPUBlockCacheOp op = Inr success))"
proof (intro conjI impI)
  show "(\<exists>msg. verify_GPUBlockCacheOp op = Inr (failure msg)) =
      (length (tileShape op) \<noteq> 2 \<or> length (getShape (dest op)) \<noteq> 2 \<or>
       workPerThread op < 1 \<or> vecWidth op < 1 \<or> workPerThread op mod vecWidth op \<noteq> 0)"
    by (simp add: verify_GPUBlockCacheOp_def Let_def)
next
  assume "length (tileShape op) \<noteq> 2"
  then show "verify_GPUBlockCacheOp op = Inr (failure ''Only 2-D tiles are supported.'')"
    by (simp add: verify_GPUBlockCacheOp_def)
next
  assume "length (tileShape op) = 2 \<and> length (getShape (dest op)) \<noteq> 2"
  then show "verify_GPUBlockCacheOp op =
      Inr (failure ''Only 2-D destination memrefs are supported.'')"
    by (simp add: verify_GPUBlockCacheOp_def Let_def)
next
  assume "length (tileShape op) = 2 \<and> length (getShape (dest op)) = 2 \<and>
       (workPerThread op < 1 \<or> vecWidth op < 1 \<or> workPerThread op mod vecWidth op \<noteq> 0)"
  then show "verify_GPUBlockCacheOp op = Inr (failure ''Work per thread (WPT) must be >= 1 and vector width must be >= 1 and WPT must be a multiple of vector width.'')"
    by (simp add: verify_GPUBlockCacheOp_def Let_def)
next
  assume ok: "length (tileShape op) = 2 \<and> length (getShape (dest op)) = 2 \<and>
       1 \<le> workPerThread op \<and> 1 \<le> vecWidth op \<and> workPerThread op mod vecWidth op = 0"
  obtain a b where ts: "tileShape op = [a, b]"
    using ok length_two by blast
  obtain c d where ds: "getShape (dest op) = [c, d]"
    using ok length_two by blast
  have nofail: "\<not> (workPerThread op < 1 \<or> vecWidth op < 1 \<or> workPerThread op mod vecWidth op \<noteq> 0)"
    using ok by simp
  show "if getMemorySpace (dest op) = MemorySpace_Shared \<and>
                getShape (dest op) \<noteq> (if dstRowMajor op then tileShape op else rev (tileShape op))
             then \<exists>msg. verify_GPUBlockCacheOp op = Inl (AssertionFailed msg)
             else verify_GPUBlockCacheOp op = Inr success"
    unfolding verify_GPUBlockCacheOp_def Let_def ts ds
    using nofail by (cases "dstRowMajor op") auto
qed

theorem verify_GPUBlockCacheOp_failures_witness:
  "verify_GPUBlockCacheOp (blockCache 3 2 MemorySpace_Shared [16, 32]) =
     Inr (failure ''Work per thread (WPT) must be >= 1 and vector width must be >= 1 and WPT must be a multiple of vector width.'')
   \<and> verify_GPUBlockCacheOp (blockCache 4 2 MemorySpace_Shared [16, 32]) = Inr success
   \<and> (\<exists>msg. verify_GPUBlockCacheOp (blockCache 4 2 MemorySpace_Shared [32, 16]) =
        Inl (AssertionFailed msg))
   \<and> verify_GPUBlockCacheOp (blockCache 4 2 MemorySpace_Global [32, 16]) = Inr success"
  using verify_GPUBlockCacheOp_failures [of "blockCache 3 2 MemorySpace_Shared [16, 32]"]
    verify_GPUBlockCacheOp_failures [of "blockCache 4 2 MemorySpace_Shared [16, 32]"]
    verify_GPUBlockCacheOp_failures [of "blockCache 4 2 MemorySpace_Shared [32, 16]"]
    verify_GPUBlockCacheOp_failures [of "blockCache 4 2 MemorySpace_Global [32, 16]"]
  by (simp add: blockCache_def verify_GPUBlockCacheOp_def)

subsection \<open>Folding of casts\<close>


lemma GetElementOp_fold_same_type:
  "GetElementOp_fold operand (getType operand) = FoldedToValue operand"
  by (simp add: GetElementOp_fold_def)















subsection \<open>Builders of function-like operations\<close>

text \<open>
  Claim C5: on a fresh operation state, the builder with the external tag attaches the
  symbol name, the function type and the execution target as attributes (and the unit
  attribute \<^verbatim>\<open>external\<close>), and leaves one region with one entry block, which has one
  argument per input of the function type and whose only operation is the trivial
  terminator \<^verbatim>\<open>ReturnOp\<close>: no body is built besides it. Without the tag the builder
  attaches the same three attributes and leaves the entry block empty.
\<close>

theorem ValueFuncOp_build_external_result:
  "ValueFuncOp_build_external \<lparr>location = loc, attributes = attrs, regions = []\<rparr> name type target =
     Inr \<lparr>location = loc,
          attributes = attrs @
            [(SymbolAttrName, StringAttr name),
             (TypeAttrName, TypeAttr type),
             (ExecTargetAttrName, ExecutionTargetAttr target),
             (AttrName ''external'', UnitAttr)],
          regions = [[\<lparr>getArguments = map (\<lambda>t. (t, loc)) (getInputs type),
                       getOperations = [ReturnOp loc]\<rparr>]]\<rparr>
   \<and> ValueFuncOp_build \<lparr>location = loc, attributes = attrs, regions = []\<rparr> name type target =
     \<lparr>location = loc,
      attributes = attrs @
        [(SymbolAttrName, StringAttr name),
         (TypeAttrName, TypeAttr type),
         (ExecTargetAttrName, ExecutionTargetAttr target)],
      regions = [[\<lparr>getArguments = map (\<lambda>t. (t, loc)) (getInputs type),
                   getOperations = []\<rparr>]]\<rparr>"
proof -
  have args: "zip ts (replicate (length ts) l) = map (\<lambda>t. (t, l)) ts" for ts :: "Type list" and l :: Location
    by (induction ts) simp_all
  show ?thesis
    by (simp add: ValueFuncOp_build_external_def ValueFuncOp_build_def addAttribute_def args)
qed

subsection \<open>Reorder\<close>

text \<open>Permutations of the dimension indices, and the loop of the builder.\<close>

lemma perm_set: "isPermutationOrder P \<Longrightarrow> set P = {0 ..< length P}"
proof -
  assume p: "isPermutationOrder P"
  then have sub: "set P \<subseteq> {0 ..< length P}"
    by (auto simp: isPermutationOrder_def list_all_iff)
  have "card (set P) = length P"
    using p by (simp add: isPermutationOrder_def distinct_card)
  then show ?thesis
    using sub by (simp add: card_subset_eq)
qed

lemma perm_surj:
  assumes "isPermutationOrder P" "i < length P"
  obtains j where "j < length P" "P ! j = i"
proof -
  have "i \<in> set P" using assms perm_set by simp
  then show ?thesis using that by (auto simp: in_set_conv_nth)
qed

lemma perm_nth_less: "isPermutationOrder P \<Longrightarrow> j < length P \<Longrightarrow> P ! j < length P"
  by (simp add: isPermutationOrder_def list_all_length)

lemma reorder_loop_result:
  assumes "list_all (\<lambda>p. p < n) xs" "distinct xs" "length am = n" "length sizes = n"
  shows "\<exists>ps' am'. reorder_loop sizes (enumerate k (map int xs)) ps am = Inr (ps', am')
           \<and> length ps' = length ps \<and> length am' = n
           \<and> (\<forall>j < length xs. k + j < length ps \<longrightarrow> ps' ! (k + j) = sizes ! (xs ! j))
           \<and> (\<forall>j < k. ps' ! j = ps ! j)
           \<and> (\<forall>j < length xs. am' ! (xs ! j) = k + j)
           \<and> (\<forall>i. i \<notin> set xs \<longrightarrow> am' ! i = am ! i)"
  using assms
proof (induction xs arbitrary: k ps am)
  case Nil
  then show ?case by simp
next
  case (Cons x xs)
  let ?ps1 = "ps[k := sizes ! x]" and ?am1 = "am[x := k]"
  have x: "x < n" "x \<notin> set xs" using Cons.prems by simp_all
  have step: "reorder_loop sizes (enumerate k (map int (x # xs))) ps am =
              reorder_loop sizes (enumerate (Suc k) (map int xs)) ?ps1 ?am1"
    using x Cons.prems by simp
  obtain ps' am' where r: "reorder_loop sizes (enumerate (Suc k) (map int xs)) ?ps1 ?am1 = Inr (ps', am')"
      and lp: "length ps' = length ?ps1" and la: "length am' = n"
      and sz: "\<forall>j < length xs. Suc k + j < length ?ps1 \<longrightarrow> ps' ! (Suc k + j) = sizes ! (xs ! j)"
      and keep: "\<forall>j < Suc k. ps' ! j = ?ps1 ! j"
      and inv: "\<forall>j < length xs. am' ! (xs ! j) = Suc k + j"
      and other: "\<forall>i. i \<notin> set xs \<longrightarrow> am' ! i = ?am1 ! i"
    using Cons.IH [of ?am1 "Suc k" ?ps1] Cons.prems by auto
  have a: "\<forall>j < length (x # xs). k + j < length ps \<longrightarrow> ps' ! (k + j) = sizes ! ((x # xs) ! j)"
  proof (intro allI impI)
    fix j assume j: "j < length (x # xs)" and b: "k + j < length ps"
    show "ps' ! (k + j) = sizes ! ((x # xs) ! j)"
    proof (cases j)
      case 0
      then show ?thesis using keep b by simp
    next
      case (Suc j')
      then show ?thesis using sz j b by simp
    qed
  qed
  have b: "\<forall>j < k. ps' ! j = ps ! j"
    using keep by simp
  have c: "\<forall>j < length (x # xs). am' ! ((x # xs) ! j) = k + j"
  proof (intro allI impI)
    fix j assume j: "j < length (x # xs)"
    show "am' ! ((x # xs) ! j) = k + j"
    proof (cases j)
      case 0
      then show ?thesis using other x Cons.prems(3) by simp
    next
      case (Suc j')
      then show ?thesis using inv j by simp
    qed
  qed
  have d: "\<forall>i. i \<notin> set (x # xs) \<longrightarrow> am' ! i = am ! i"
    using other by simp
  show ?case
    unfolding step using r lp la a b c d by simp
qed

lemma reorder_loop_perm:
  assumes p: "isPermutationOrder P" and n: "length sizes = length P"
  obtains A where
    "reorder_loop sizes (enumerate 0 (map int P)) (replicate (length P) 0) (replicate (length P) 0)
       = Inr (map ((!) sizes) P, A)"
    "length A = length P" "\<forall>j < length P. A ! (P ! j) = j"
proof -
  have "list_all (\<lambda>p. p < length P) P" "distinct P"
    using p by (simp_all add: isPermutationOrder_def)
  from reorder_loop_result [OF this, of "replicate (length P) 0" sizes 0 "replicate (length P) 0"] n
  obtain ps' A where r: "reorder_loop sizes (enumerate 0 (map int P)) (replicate (length P) 0)
        (replicate (length P) 0) = Inr (ps', A)"
      and lp: "length ps' = length P" and la: "length A = length P"
      and sz: "\<forall>j < length P. ps' ! j = sizes ! (P ! j)"
      and inv: "\<forall>j < length P. A ! (P ! j) = j"
    by auto
  have "ps' = map ((!) sizes) P"
    using lp sz by (intro nth_equalityI) simp_all
  then show ?thesis using that r la inv by simp
qed


lemma inverse_is_permutation:
  assumes p: "isPermutationOrder P" and la: "length A = length P"
    and inv: "\<forall>j < length P. A ! (P ! j) = j"
  shows "isPermutationOrder A"
    and "\<And>i j. i < length P \<Longrightarrow> j < length P \<Longrightarrow> (i = A ! j) = (j = P ! i)"
proof -
  have less: "A ! i < length P" if i: "i < length P" for i
  proof -
    obtain j where "j < length P" "P ! j = i" using perm_surj [OF p i] .
    then show ?thesis using inv by auto
  qed
  have inj: "i1 = i2" if i1: "i1 < length P" and i2: "i2 < length P" and eq: "A ! i1 = A ! i2"
    for i1 i2
  proof -
    obtain j1 where j1: "j1 < length P" "P ! j1 = i1" using perm_surj [OF p i1] .
    obtain j2 where j2: "j2 < length P" "P ! j2 = i2" using perm_surj [OF p i2] .
    have "j1 = j2" using inv j1 j2 eq by auto
    then show ?thesis using j1 j2 by simp
  qed
  show "isPermutationOrder A"
    unfolding isPermutationOrder_def
    using less inj la by (auto simp: distinct_conv_nth list_all_length)
  show "(i = A ! j) = (j = P ! i)" if "i < length P" "j < length P" for i j
  proof
    assume "i = A ! j"
    then have "A ! j = A ! (P ! i)" using inv that by simp
    then show "j = P ! i" using inj that perm_nth_less [OF p] by simp
  next
    assume "j = P ! i"
    then show "i = A ! j" using inv that by simp
  qed
qed

lemma sum_list_delta:
  assumes "j0 < n"
  shows "sum_list (map (\<lambda>j. if j = j0 then f j else (0::int)) [0 ..< n]) = f j0"
proof -
  have "sum_list (map (\<lambda>j. if j = j0 then f j else 0) [0 ..< n]) =
        (\<Sum>j \<in> {0 ..< n}. if j = j0 then f j else 0)"
    by (simp add: interv_sum_list_conv_sum_set_nat)
  also have "\<dots> = f j0"
    using assms by (simp add: sum.delta)
  finally show ?thesis .
qed

lemma compose_strided_permutation:
  assumes p: "isPermutationOrder P" and la: "length A = length P"
    and inv: "\<forall>j < length P. A ! (P ! j) = j"
    and ls: "length strides = length P"
  shows "getPermutationMap A =
           Some \<lparr>getNumDims = length P, getResults = map (getAffineDimExpr (length P)) A\<rparr>"
    and "compose (makeStridedLinearLayoutMap strides offset)
           \<lparr>getNumDims = length P, getResults = map (getAffineDimExpr (length P)) A\<rparr> =
         Inr (makeStridedLinearLayoutMap (map ((!) strides) P) offset)"
proof -
  let ?n = "length P"
  have permA: "isPermutationOrder A"
    using inverse_is_permutation(1) [OF p la inv] .
  show "getPermutationMap A =
           Some \<lparr>getNumDims = ?n, getResults = map (getAffineDimExpr ?n) A\<rparr>"
    using permA la by (simp add: getPermutationMap_def)
  have Aless: "A ! j < ?n" if "j < ?n" for j
    using perm_nth_less [OF permA] la that by simp
  have coeff: "sum_list (map (\<lambda>j. strides ! j * fst (map (getAffineDimExpr ?n) A ! j) ! i) [0 ..< ?n])
               = strides ! (P ! i)" if i: "i < ?n" for i
  proof -
    have "map (\<lambda>j. strides ! j * fst (map (getAffineDimExpr ?n) A ! j) ! i) [0 ..< ?n] =
          map (\<lambda>j. if j = P ! i then strides ! j else 0) [0 ..< ?n]"
    proof (rule map_cong [OF refl])
      fix j assume "j \<in> set [0 ..< ?n]"
      then have j: "j < ?n" by simp
      have "fst (map (getAffineDimExpr ?n) A ! j) ! i = (if i = A ! j then 1 else 0)"
        using i j la by (simp add: getAffineDimExpr_def)
      then show "strides ! j * fst (map (getAffineDimExpr ?n) A ! j) ! i =
                 (if j = P ! i then strides ! j else 0)"
        using inverse_is_permutation(2) [OF p la inv i j] by simp
    qed
    then have "sum_list (map (\<lambda>j. strides ! j * fst (map (getAffineDimExpr ?n) A ! j) ! i) [0 ..< ?n]) =
               sum_list (map (\<lambda>j. if j = P ! i then strides ! j else 0) [0 ..< ?n])"
      by (rule arg_cong)
    also have "\<dots> = strides ! (P ! i)"
      using perm_nth_less [OF p i] by (rule sum_list_delta)
    finally show ?thesis .
  qed
  have const: "sum_list (map (\<lambda>j. strides ! j * snd (map (getAffineDimExpr ?n) A ! j)) [0 ..< ?n]) = 0"
  proof -
    have "map (\<lambda>j. strides ! j * snd (map (getAffineDimExpr ?n) A ! j)) [0 ..< ?n] =
          map (\<lambda>j. 0) [0 ..< ?n]"
      using la by (intro map_cong [OF refl]) (simp add: getAffineDimExpr_def)
    then have "sum_list (map (\<lambda>j. strides ! j * snd (map (getAffineDimExpr ?n) A ! j)) [0 ..< ?n]) =
               sum_list (map (\<lambda>j. 0) [0 ..< ?n])"
      by (rule arg_cong)
    then show ?thesis by simp
  qed
  have "substitute ?n (map (getAffineDimExpr ?n) A) (strides, offset) =
        (map ((!) strides) P, offset)"
  proof -
    have "map (\<lambda>i. sum_list (map (\<lambda>j. strides ! j * fst (map (getAffineDimExpr ?n) A ! j) ! i) [0 ..< ?n])) [0 ..< ?n]
          = map ((!) strides) P"
      using coeff by (intro nth_equalityI) simp_all
    then show ?thesis
      using const la by (simp add: substitute_def)
  qed
  then show "compose (makeStridedLinearLayoutMap strides offset)
           \<lparr>getNumDims = ?n, getResults = map (getAffineDimExpr ?n) A\<rparr> =
         Inr (makeStridedLinearLayoutMap (map ((!) strides) P) offset)"
    using la ls by (simp add: compose_def makeStridedLinearLayoutMap_def)
qed

lemma getStridesAndOffset_Some:
  assumes "getStridesAndOffset t = Some (strides, offset)"
  shows "length strides = length (getShape t)"
    and "getLayout t = makeStridedLinearLayoutMap strides offset"
  using assms
  by (auto simp: getStridesAndOffset_def makeStridedLinearLayoutMap_def
           split: list.splits prod.splits if_splits)

lemma ReorderOp_build_permutation:
  assumes so: "getStridesAndOffset t = Some (strides, offset)"
    and p: "isPermutationOrder P" and n: "length P = length (getShape t)"
  shows "ReorderOp_build t (map int P) =
           Inr (t\<lparr>getShape := map ((!) (getShape t)) P,
                  getLayout := makeStridedLinearLayoutMap (map ((!) strides) P) offset\<rparr>)"
proof -
  obtain A where loop:
      "reorder_loop (getShape t) (enumerate 0 (map int P)) (replicate (length P) 0)
         (replicate (length P) 0) = Inr (map ((!) (getShape t)) P, A)"
    and la: "length A = length P" and inv: "\<forall>j < length P. A ! (P ! j) = j"
    using reorder_loop_perm [OF p n [symmetric]] by blast
  have ls: "length strides = length P"
    using getStridesAndOffset_Some(1) [OF so] n by simp
  show ?thesis
    using loop so compose_strided_permutation(1) [OF p la inv ls]
      compose_strided_permutation(2) [OF p la inv ls, of offset]
    by (simp add: ReorderOp_build_def)
qed


lemma nth_map_compose:
  assumes q: "isPermutationOrder Q" and pq: "map ((!) P) Q = [0 ..< length P]"
    and lx: "length xs = length P"
  shows "map ((!) (map ((!) xs) P)) Q = xs"
proof -
  have lq: "length Q = length P"
    using arg_cong [OF pq, of length] by simp
  have "map ((!) (map ((!) xs) P)) Q = map (\<lambda>q. xs ! (P ! q)) Q"
  proof (rule map_cong [OF refl])
    fix q assume "q \<in> set Q"
    then have "q < length P"
      using q lq by (auto simp: isPermutationOrder_def list_all_iff)
    then show "map ((!) xs) P ! q = xs ! (P ! q)" by simp
  qed
  also have "\<dots> = map ((!) xs) (map ((!) P) Q)" by simp
  also have "\<dots> = xs" unfolding pq using lx map_nth [of xs] by simp
  finally show ?thesis .
qed

text \<open>
  Claim C3: let the buffer type \<open>t\<close> have computable strides and offset, let \<open>P\<close> be a
  permutation of its dimensions and \<open>Q\<close> the inverse permutation (\<open>P[Q[i]] = i\<close>).
  Then the builder of the reorder operation with order \<open>P\<close> returns a type \<open>t1\<close> whose
  shape and strides are those of \<open>t\<close> gathered by \<open>P\<close>, and the builder on \<open>t1\<close> with
  order \<open>Q\<close> returns \<open>t\<close> itself: the same shape, strides, offset, element type and
  memory space.
\<close>

theorem ReorderOp_build_round_trip:
  assumes so: "getStridesAndOffset t = Some (strides, offset)"
    and p: "isPermutationOrder P" and n: "length P = length (getShape t)"
    and q: "isPermutationOrder Q" and pq: "map ((!) P) Q = [0 ..< length P]"
  shows "\<exists>t1 t2. ReorderOp_build t (map int P) = Inr t1
           \<and> getShape t1 = map ((!) (getShape t)) P
           \<and> getStridesAndOffset t1 = Some (map ((!) strides) P, offset)
           \<and> ReorderOp_build t1 (map int Q) = Inr t2
           \<and> getShape t2 = getShape t
           \<and> getStridesAndOffset t2 = Some (strides, offset)
           \<and> t2 = t"
proof -
  let ?t1 = "t\<lparr>getShape := map ((!) (getShape t)) P,
               getLayout := makeStridedLinearLayoutMap (map ((!) strides) P) offset\<rparr>"
  have ls: "length strides = length P" and layout: "getLayout t = makeStridedLinearLayoutMap strides offset"
    using getStridesAndOffset_Some [OF so] n by simp_all
  have lq: "length Q = length P"
    using arg_cong [OF pq, of length] by simp
  have first: "ReorderOp_build t (map int P) = Inr ?t1"
    using ReorderOp_build_permutation [OF so p n] .
  have so1: "getStridesAndOffset ?t1 = Some (map ((!) strides) P, offset)"
    by (simp add: getStridesAndOffset_def makeStridedLinearLayoutMap_def)
  have n1: "length Q = length (getShape ?t1)"
    using lq by simp
  have "ReorderOp_build ?t1 (map int Q) =
          Inr (?t1\<lparr>getShape := map ((!) (getShape ?t1)) Q,
                    getLayout := makeStridedLinearLayoutMap (map ((!) (map ((!) strides) P)) Q) offset\<rparr>)"
    using ReorderOp_build_permutation [OF so1 q n1] .
  moreover have "map ((!) (getShape ?t1)) Q = getShape t"
    using nth_map_compose [OF q pq, of "getShape t"] n by simp
  moreover have "map ((!) (map ((!) strides) P)) Q = strides"
    using nth_map_compose [OF q pq ls] .
  ultimately have second: "ReorderOp_build ?t1 (map int Q) = Inr t"
    using layout by simp
  show ?thesis
    using first so1 second so by simp
qed

text \<open>The round trip on the example buffer, with \<open>P = [2, 0, 1]\<close> and \<open>Q = [1, 2, 0]\<close>.\<close>

lemma ReorderOp_build_example: "ReorderOp_build exampleType [2, 0, 1] =
   Inr \<lparr>getShape = [4, 2, 3], getElementType = FloatType F32,
     getLayout = \<lparr>getNumDims = 3, getResults = [([1, 12, 4], 0)]\<rparr>,
     getMemorySpace = MemorySpace_None\<rparr>"
  by code_simp

theorem ReorderOp_build_round_trip_witness:
  "\<exists>t1 t2. ReorderOp_build exampleType [2, 0, 1] = Inr t1
     \<and> getShape t1 = [4, 2, 3]
     \<and> getStridesAndOffset t1 = Some ([1, 12, 4], 0)
     \<and> ReorderOp_build t1 [1, 2, 0] = Inr t2
     \<and> getShape t2 = [2, 3, 4]
     \<and> getStridesAndOffset t2 = Some ([12, 4, 1], 0)
     \<and> t2 = exampleType"
proof -
  have so: "getStridesAndOffset exampleType = Some ([12, 4, 1], 0)"
    by (simp add: getStridesAndOffset_def exampleType_def)
  have p: "isPermutationOrder [2, 0, 1]" and q: "isPermutationOrder [1, 2, 0]"
    by (simp_all add: isPermutationOrder_def)
  have n: "length [2, 0, 1 :: nat] = length (getShape exampleType)"
    by (simp add: exampleType_def)
  have pq: "map ((!) [2, 0, 1 :: nat]) [1, 2, 0] = [0 ..< length [2, 0, 1 :: nat]]"
    by code_simp
  show ?thesis
    using ReorderOp_build_round_trip [OF so p n q pq] by (simp add: exampleType_def)
qed


end
